theory Spec2Isabelle
  imports Complex_Main
begin

section \<open>Data model of the tab manager page (ui.js)\<close>

text \<open>
  The page keeps its whole state in module-level variables of ui.js. They are collected in
  the record \<open>ui_state\<close>, one field per variable, under the names of the source. The
  browser is not part of the repository: it is a parameter of every handler that talks
  to it (record \<open>chrome\<close> below). Rendering only reads the state and writes the document,
  so the render calls of the source have no counterpart here.
\<close>

text \<open>A tab and a window as \<open>chrome.windows.getAll({populate: true})\<close> delivers them;
  only the properties ui.js reads for its state are kept.\<close>

record tab =
  tab_id :: int
  tab_windowId :: int
  tab_active :: bool

record window =
  win_id :: int
  win_tabs :: "tab list"

text \<open>\<open>mergeMode\<close> is \<open>null\<close>, \<open>'red'\<close> or \<open>'yellow'\<close>.\<close>

datatype merge_mode = ModeNull | ModeRed | ModeYellow

text \<open>\<open>lastSnapshot\<close> is the JSON text of the list of \<open>{id, tabs: [ids]}\<close> objects; two
  such texts are equal exactly when the lists they print are, so the snapshot is
  represented by the list itself.\<close>

type_synonym snapshot = "(int \<times> int list) list"

record point =
  p_x :: real
  p_y :: real

record rect =
  r_left :: real
  r_top :: real
  r_right :: real
  r_bottom :: real

record mouse_event =
  clientX :: real
  clientY :: real
  button :: int
  shiftKey :: bool
  ctrlKey :: bool
  metaKey :: bool
  onCloseBtn :: bool

record ui_state =
  windowsData :: "window list"
  activeWindowId :: "int option"
  lastSnapshot :: "snapshot option"
  uiWindowId :: "int option"
  blueSelection :: "int list"
  redSelection :: "int list"
  yellowSelection :: "int list"
  mergeMode :: merge_mode
  isDragging :: bool
  dragStart :: "point option"
  marqueeEl :: bool
  dragWasActive :: bool

text \<open>The state right after the script is loaded (lines 17 to 34).\<close>

definition initial_ui :: ui_state where
  "initial_ui = \<lparr> windowsData = [], activeWindowId = None, lastSnapshot = None,
     uiWindowId = None, blueSelection = [], redSelection = [], yellowSelection = [],
     mergeMode = ModeNull, isDragging = False, dragStart = None, marqueeEl = False,
     dragWasActive = False \<rparr>"

subsection \<open>JavaScript values\<close>

text \<open>A window id variable holds \<open>null\<close>/\<open>undefined\<close> (\<open>None\<close>) or a number. \<open>!v\<close> is
  true for \<open>null\<close> and for the number 0.\<close>

definition truthy :: "int option \<Rightarrow> bool" where
  "truthy v = (case v of None \<Rightarrow> False | Some i \<Rightarrow> i \<noteq> 0)"

text \<open>\<open>a || b\<close>.\<close>

definition js_or :: "int option \<Rightarrow> int option \<Rightarrow> int option" where
  "js_or a b = (if truthy a then a else b)"

text \<open>\<open>if (!sel.includes(id)) sel.push(id)\<close>.\<close>

definition push_absent :: "int list \<Rightarrow> int \<Rightarrow> int list" where
  "push_absent sel i = (if i \<in> set sel then sel else sel @ [i])"

text \<open>\<open>Array.from(new Set(xs))\<close>: a JavaScript Set keeps its elements in the order of their
  first insertion and ignores a value it already holds.\<close>

definition array_from_Set :: "int list \<Rightarrow> int list" where
  "array_from_Set xs = foldl push_absent [] xs"

subsection \<open>Escape (keydown listener, lines 7 to 15)\<close>

definition keydown :: "string \<Rightarrow> ui_state \<Rightarrow> ui_state" where
  "keydown key u =
     (if key = ''Escape''
      then u\<lparr> blueSelection := [], redSelection := [], yellowSelection := [],
              mergeMode := ModeNull \<rparr>
      else u)"

subsection \<open>Selection gestures\<close>

text \<open>\<open>toggleTabSelection\<close> (lines 507 to 513).\<close>

definition toggleTabSelection :: "int \<Rightarrow> ui_state \<Rightarrow> ui_state" where
  "toggleTabSelection tabId u =
     (if tabId \<in> set (blueSelection u)
      then u\<lparr> blueSelection := filter (\<lambda>i. i \<noteq> tabId) (blueSelection u) \<rparr>
      else u\<lparr> blueSelection := blueSelection u @ [tabId] \<rparr>)"

text \<open>The click listener of a page card (lines 466 to 478).\<close>

definition card_click :: "int \<Rightarrow> mouse_event \<Rightarrow> ui_state \<Rightarrow> ui_state" where
  "card_click tabId e u =
     (if tabId \<notin> set (redSelection u) \<and> tabId \<notin> set (yellowSelection u)
      then (if dragWasActive u then u\<lparr> dragWasActive := False \<rparr>
            else if ctrlKey e \<or> metaKey e then toggleTabSelection tabId u
            else u\<lparr> blueSelection := [tabId] \<rparr>)
      else u)"

text \<open>\<open>selectAllTabsInWindow\<close> (lines 515 to 523).\<close>

definition selectAllTabsInWindow :: "int \<Rightarrow> ui_state \<Rightarrow> ui_state" where
  "selectAllTabsInWindow windowId u =
     (case find (\<lambda>w. win_id w = windowId) (windowsData u) of
        None \<Rightarrow> u
      | Some window \<Rightarrow>
          u\<lparr> blueSelection := blueSelection u @ map tab_id (win_tabs window) \<rparr>)"

text \<open>\<open>toggleAllTabsInWindow\<close> (lines 525 to 548).\<close>

definition toggleAllTabsInWindow :: "int \<Rightarrow> ui_state \<Rightarrow> ui_state" where
  "toggleAllTabsInWindow windowId u =
     (case find (\<lambda>w. win_id w = windowId) (windowsData u) of
        None \<Rightarrow> u
      | Some window \<Rightarrow>
          (let tabIds = map tab_id (win_tabs window);
               allSelected = list_all (\<lambda>i. i \<in> set (blueSelection u)) tabIds
           in if allSelected
              then u\<lparr> blueSelection := filter (\<lambda>i. i \<notin> set tabIds) (blueSelection u) \<rparr>
              else u\<lparr> blueSelection := foldl push_absent (blueSelection u) tabIds \<rparr>))"

text \<open>The listeners of a window button in the window list (lines 125 to 143). The button
  was rendered for the window with id \<open>windowId\<close>.\<close>

definition windowTab_click :: "int \<Rightarrow> mouse_event \<Rightarrow> ui_state \<Rightarrow> ui_state" where
  "windowTab_click windowId e u =
     (if ctrlKey e \<or> metaKey e then toggleAllTabsInWindow windowId u
      else u\<lparr> activeWindowId := Some windowId \<rparr>)"

definition windowTab_dblclick :: "int \<Rightarrow> ui_state \<Rightarrow> ui_state" where
  "windowTab_dblclick windowId u =
     selectAllTabsInWindow windowId (u\<lparr> activeWindowId := Some windowId \<rparr>)"

subsection \<open>Marquee selection (attachDragSelectionHandlers, lines 551 to 660)\<close>

definition rectsIntersect :: "rect \<Rightarrow> rect \<Rightarrow> bool" where
  "rectsIntersect a b =
     (\<not> (r_left a > r_right b \<or> r_right a < r_left b \<or>
         r_top a > r_bottom b \<or> r_bottom a < r_top b))"

definition mousedown :: "mouse_event \<Rightarrow> ui_state \<Rightarrow> ui_state" where
  "mousedown e u =
     (if button e \<noteq> 0 then u
      else if onCloseBtn e then u
      else u\<lparr> isDragging := True, dragWasActive := False,
              dragStart := Some \<lparr> p_x = clientX e, p_y = clientY e \<rparr>,
              marqueeEl := True \<rparr>)"

definition mousemove :: "mouse_event \<Rightarrow> ui_state \<Rightarrow> ui_state" where
  "mousemove e u =
     (if \<not> isDragging u \<or> \<not> marqueeEl u then u else u\<lparr> dragWasActive := True \<rparr>)"

text \<open>\<open>marqueeClient\<close>: the rectangle between the press point and the pointer.\<close>

definition marqueeClient :: "point \<Rightarrow> mouse_event \<Rightarrow> rect" where
  "marqueeClient ds e =
     \<lparr> r_left = min (p_x ds) (clientX e), r_top = min (p_y ds) (clientY e),
       r_right = max (p_x ds) (clientX e), r_bottom = max (p_y ds) (clientY e) \<rparr>"

text \<open>\<open>selectedIds\<close>: the page cards of the document, in document order, each with the tab
  id of its \<open>dataset\<close> and its bounding rectangle, are a parameter.\<close>

definition selectedIds :: "rect \<Rightarrow> (int \<times> rect) list \<Rightarrow> int list" where
  "selectedIds m cards = map fst (filter (\<lambda>c. rectsIntersect m (snd c)) cards)"

text \<open>\<open>endDrag\<close>, up to the timer it sets. \<open>dragStart\<close> is an object whenever
  \<open>isDragging\<close> is true; were it \<open>null\<close>, reading \<open>dragStart.x\<close> throws right after
  \<open>isDragging = false\<close>.\<close>

definition endDrag :: "mouse_event \<Rightarrow> (int \<times> rect) list \<Rightarrow> ui_state \<Rightarrow> ui_state" where
  "endDrag e cards u =
     (if \<not> isDragging u then u
      else case dragStart u of
        None \<Rightarrow> u\<lparr> isDragging := False \<rparr>
      | Some ds \<Rightarrow>
          (let sel = selectedIds (marqueeClient ds e) cards;
               u1 = u\<lparr> isDragging := False \<rparr>;
               u2 = (if sel \<noteq> []
                     then (if shiftKey e \<or> metaKey e
                           then u1\<lparr> blueSelection := array_from_Set (blueSelection u1 @ sel) \<rparr>
                           else if \<not> ctrlKey e then u1\<lparr> blueSelection := sel \<rparr>
                           else u1)
                     else u1)
           in u2\<lparr> marqueeEl := False \<rparr>))"

text \<open>The callback of \<open>setTimeout(..., 0)\<close> at the end of \<open>endDrag\<close>.\<close>

definition endDrag_timeout :: "ui_state \<Rightarrow> ui_state" where
  "endDrag_timeout u = u\<lparr> dragWasActive := False \<rparr>"

section \<open>The browser as a parameter\<close>

text \<open>
  A call of the \<open>chrome\<close> API either throws or rejects (\<open>Rejects\<close>, control goes to the
  enclosing \<open>catch\<close>) or delivers a value. \<open>chrome.tabs.query\<close> and
  \<open>chrome.windows.create\<close> are called with a callback inside \<open>new Promise\<close>: the value
  delivered is what the browser passes to the callback, which is \<open>undefined\<close> (\<open>None\<close>)
  when the browser could not do what was asked.

  The browser's own state has the arbitrary type \<open>'h\<close>. Reading calls are functions of
  that state; calls that change the browser return its next state too.
\<close>

datatype 'a outcome = Rejects | Resolves 'a

record 'h chrome =
  tabs_query :: "'h \<Rightarrow> tab list option outcome"
  windows_getAll :: "'h \<Rightarrow> window list outcome"
  windows_get :: "'h \<Rightarrow> int \<Rightarrow> window outcome"
  windows_create :: "'h \<Rightarrow> int option \<Rightarrow> window option outcome \<times> 'h"
  tabs_move :: "'h \<Rightarrow> int list \<Rightarrow> int \<Rightarrow> int \<Rightarrow> unit outcome \<times> 'h"
  windows_update :: "'h \<Rightarrow> int \<Rightarrow> unit outcome \<times> 'h"

text \<open>What the page does that is visible outside its own variables: notices, console
  errors, the commands sent to the browser (\<open>TabsMove ids windowId index\<close>,
  \<open>WindowsUpdate windowId\<close> for \<open>{focused: true}\<close>) and every start of a refresh.\<close>

datatype event =
    Alert string
  | ConsoleError string
  | WindowsCreate "int option"
  | TabsMove "int list" int int
  | WindowsUpdate int
  | Refresh

record 'h world =
  ui :: ui_state
  host :: 'h
  trace :: "event list"

definition emit :: "event \<Rightarrow> 'h world \<Rightarrow> 'h world" where
  "emit ev w = w\<lparr> trace := trace w @ [ev] \<rparr>"

text \<open>Sending a command: the command is recorded, the browser moves to its next state.\<close>

definition send_create :: "'h chrome \<Rightarrow> int option \<Rightarrow> 'h world \<Rightarrow> window option outcome \<times> 'h world" where
  "send_create api tabId w =
     (case windows_create api (host w) tabId of
        (r, h) \<Rightarrow> (r, (emit (WindowsCreate tabId) w)\<lparr> host := h \<rparr>))"

definition send_move :: "'h chrome \<Rightarrow> int list \<Rightarrow> int \<Rightarrow> int \<Rightarrow> 'h world \<Rightarrow> unit outcome \<times> 'h world" where
  "send_move api tabIds windowId index w =
     (case tabs_move api (host w) tabIds windowId index of
        (r, h) \<Rightarrow> (r, (emit (TabsMove tabIds windowId index) w)\<lparr> host := h \<rparr>))"

definition send_update :: "'h chrome \<Rightarrow> int \<Rightarrow> 'h world \<Rightarrow> unit outcome \<times> 'h world" where
  "send_update api windowId w =
     (case windows_update api (host w) windowId of
        (r, h) \<Rightarrow> (r, (emit (WindowsUpdate windowId) w)\<lparr> host := h \<rparr>))"

section \<open>Refresh (lines 36 to 87)\<close>

definition refreshUiWindowId :: "'h chrome \<Rightarrow> 'h world \<Rightarrow> 'h world" where
  "refreshUiWindowId api w =
     (case tabs_query api (host w) of
        Resolves (Some (t # ts)) \<Rightarrow> w\<lparr> ui := (ui w)\<lparr> uiWindowId := Some (tab_windowId t) \<rparr> \<rparr>
      | _ \<Rightarrow> w)"

definition snapshot_of :: "window list \<Rightarrow> snapshot" where
  "snapshot_of ws = map (\<lambda>w. (win_id w, map tab_id (win_tabs w))) ws"

definition loadWindowsAndTabs :: "'h chrome \<Rightarrow> 'h world \<Rightarrow> 'h world" where
  "loadWindowsAndTabs api w0 =
     (let w = refreshUiWindowId api (emit Refresh w0) in
      case windows_getAll api (host w) of
        Rejects \<Rightarrow> emit (ConsoleError ''Error loading windows:'') w
      | Resolves windows \<Rightarrow>
          (let sorted_windows = sort_key win_id windows;
               snapshot = snapshot_of sorted_windows
           in if lastSnapshot (ui w) = Some snapshot then w
              else (let u = (ui w)\<lparr> lastSnapshot := Some snapshot, windowsData := sorted_windows \<rparr>
                    in if sorted_windows = [] then w\<lparr> ui := u \<rparr>
                       else if \<not> truthy (activeWindowId u)
                            then w\<lparr> ui := u\<lparr> activeWindowId := Some (win_id (hd sorted_windows)) \<rparr> \<rparr>
                            else w\<lparr> ui := u \<rparr>)))"

section \<open>The three buttons (attachTopControls, lines 151 to 266)\<close>

text \<open>The \<open>catch\<close> block of the Merge button.\<close>

definition merge_failed :: "'h world \<Rightarrow> 'h world" where
  "merge_failed w =
     (emit (Alert ''Merge failed'') (emit (ConsoleError ''Merge failed:'') w))
       \<lparr> ui := (ui w)\<lparr> mergeMode := ModeNull, redSelection := [], yellowSelection := [] \<rparr> \<rparr>"

text \<open>The end of the \<open>try\<close> block of the Merge button.\<close>

definition merge_done :: "'h chrome \<Rightarrow> 'h world \<Rightarrow> 'h world" where
  "merge_done api w =
     loadWindowsAndTabs api
       (w\<lparr> ui := (ui w)\<lparr> mergeMode := ModeNull, redSelection := [], yellowSelection := [] \<rparr> \<rparr>)"

text \<open>\<open>mergeBtn.onclick\<close>. In stage 3, \<open>combined[0]\<close> of an empty list is \<open>undefined\<close>, and
  \<open>newWin.id\<close> throws when the callback was given no window.\<close>

definition mergeBtn_onclick :: "'h chrome \<Rightarrow> 'h world \<Rightarrow> 'h world" where
  "mergeBtn_onclick api w0 =
     (let w = refreshUiWindowId api w0; u = ui w in
      if blueSelection u = [] \<and> mergeMode u \<noteq> ModeYellow
      then emit (Alert ''No tabs selected'') w
      else case mergeMode u of
        ModeNull \<Rightarrow>
          w\<lparr> ui := u\<lparr> redSelection := blueSelection u, blueSelection := [],
                      mergeMode := ModeRed \<rparr> \<rparr>
      | ModeRed \<Rightarrow>
          (let u1 = u\<lparr> yellowSelection := blueSelection u, blueSelection := [],
                       mergeMode := ModeYellow \<rparr>
           in if yellowSelection u1 = []
              then (emit (Alert ''No target tabs selected'') w)\<lparr> ui := u1\<lparr> mergeMode := ModeRed \<rparr> \<rparr>
              else w\<lparr> ui := u1 \<rparr>)
      | ModeYellow \<Rightarrow>
          (let combined = redSelection u @ yellowSelection u;
               firstTabId = (case combined of [] \<Rightarrow> None | x # xs \<Rightarrow> Some x);
               remaining = drop 1 combined
           in case send_create api firstTabId w of
                (Rejects, w1) \<Rightarrow> merge_failed w1
              | (Resolves newWin, w1) \<Rightarrow>
                  if remaining \<noteq> []
                  then (case newWin of
                          None \<Rightarrow> merge_failed w1
                        | Some nw \<Rightarrow>
                            (case send_move api remaining (win_id nw) (- 1) w1 of
                               (Rejects, w2) \<Rightarrow> merge_failed w2
                             | (Resolves x, w2) \<Rightarrow> merge_done api w2))
                  else merge_done api w1))"

text \<open>\<open>mergeFromWindow\<close> (lines 279 to 288). \<open>filter(Boolean)\<close> drops an id that is 0.\<close>

definition mergeFromWindow :: "'h chrome \<Rightarrow> int \<Rightarrow> int \<Rightarrow> 'h world \<Rightarrow> unit outcome \<times> 'h world" where
  "mergeFromWindow api targetWindowId sourceWindowId w =
     (if sourceWindowId = targetWindowId then (Resolves (), w)
      else case windows_get api (host w) sourceWindowId of
        Rejects \<Rightarrow> (Rejects, w)
      | Resolves source \<Rightarrow>
          (let tabIds = filter (\<lambda>i. i \<noteq> 0) (map tab_id (win_tabs source))
           in if tabIds = [] then (Resolves (), w)
              else (case send_move api tabIds targetWindowId (- 1) w of
                      (Rejects, w1) \<Rightarrow> (Rejects, w1)
                    | (Resolves x, w1) \<Rightarrow> send_update api targetWindowId w1)))"

text \<open>The \<open>for (const win of windowsData)\<close> loop of \<open>mergeAllBtn.onclick\<close>; a rejected
  \<open>await\<close> leaves the loop.\<close>

fun mergeAll_loop :: "'h chrome \<Rightarrow> int \<Rightarrow> window list \<Rightarrow> 'h world \<Rightarrow> unit outcome \<times> 'h world" where
  "mergeAll_loop api targetWindowId [] w = (Resolves (), w)"
| "mergeAll_loop api targetWindowId (win # wins) w =
     (if win_id win = targetWindowId then mergeAll_loop api targetWindowId wins w
      else case mergeFromWindow api targetWindowId (win_id win) w of
             (Rejects, w1) \<Rightarrow> (Rejects, w1)
           | (Resolves x, w1) \<Rightarrow> mergeAll_loop api targetWindowId wins w1)"

text \<open>\<open>uiWindowId || activeWindowId || (windowsData[0] && windowsData[0].id)\<close>.\<close>

definition targetWindowId_of :: "ui_state \<Rightarrow> int option" where
  "targetWindowId_of u =
     js_or (js_or (uiWindowId u) (activeWindowId u))
       (case windowsData u of [] \<Rightarrow> None | x # xs \<Rightarrow> Some (win_id x))"

definition mergeAllBtn_onclick :: "'h chrome \<Rightarrow> 'h world \<Rightarrow> 'h world" where
  "mergeAllBtn_onclick api w0 =
     (let w = refreshUiWindowId api w0 in
      case targetWindowId_of (ui w) of
        None \<Rightarrow> emit (Alert ''No target window to merge into'') w
      | Some t \<Rightarrow>
          if t = 0 then emit (Alert ''No target window to merge into'') w
          else (case mergeAll_loop api t (windowsData (ui w)) w of
                  (Rejects, w1) \<Rightarrow>
                    emit (Alert ''Merge All failed'') (emit (ConsoleError ''Merge All failed:'') w1)
                | (Resolves x, w1) \<Rightarrow> loadWindowsAndTabs api w1))"

text \<open>The \<open>catch\<close> block of the Split button.\<close>

definition split_failed :: "'h world \<Rightarrow> 'h world" where
  "split_failed w = emit (Alert ''Split failed'') (emit (ConsoleError ''Split failed:'') w)"

text \<open>The end of the \<open>try\<close> block of the Split button.\<close>

definition split_done :: "'h chrome \<Rightarrow> 'h world \<Rightarrow> 'h world" where
  "split_done api w = loadWindowsAndTabs api (w\<lparr> ui := (ui w)\<lparr> blueSelection := [] \<rparr> \<rparr>)"

text \<open>\<open>splitBtn.onclick\<close>.\<close>

definition splitBtn_onclick :: "'h chrome \<Rightarrow> 'h world \<Rightarrow> 'h world" where
  "splitBtn_onclick api w0 =
     (let w = refreshUiWindowId api w0 in
      case blueSelection (ui w) of
        [] \<Rightarrow> emit (Alert ''No tabs selected'') w
      | firstTabId # tabsToMove \<Rightarrow>
          (case send_create api (Some firstTabId) w of
             (Rejects, w1) \<Rightarrow> split_failed w1
           | (Resolves newWin, w1) \<Rightarrow>
               if tabsToMove \<noteq> []
               then (case newWin of
                       None \<Rightarrow> split_failed w1
                     | Some nw \<Rightarrow>
                         (case send_move api tabsToMove (win_id nw) (- 1) w1 of
                            (Rejects, w2) \<Rightarrow> split_failed w2
                          | (Resolves x, w2) \<Rightarrow> split_done api w2))
               else split_done api w1))"

section \<open>A small browser to run the handlers on\<close>

text \<open>
  The handlers are defined for every browser. To run them on concrete inputs, this
  section gives one: windows with their ordered tabs, the focused window, the id the next
  new window gets and the id of the tab that shows ui.html. A command that names a tab or
  a window that does not exist fails: \<open>windows.create\<close> then hands \<open>undefined\<close> to its
  callback, \<open>tabs.move\<close>, \<open>windows.get\<close> and \<open>windows.update\<close> reject. With \<open>b_offline\<close>
  set, \<open>windows.getAll\<close> rejects.
\<close>

record browser =
  b_windows :: "window list"
  b_focused :: "int option"
  b_nextId :: int
  b_uiTab :: int
  b_offline :: bool

definition all_tabs :: "window list \<Rightarrow> tab list" where
  "all_tabs ws = concat (map win_tabs ws)"

definition drop_tab :: "int \<Rightarrow> window list \<Rightarrow> window list" where
  "drop_tab t ws = map (\<lambda>w. w\<lparr> win_tabs := filter (\<lambda>x. tab_id x \<noteq> t) (win_tabs w) \<rparr>) ws"

definition put_tab :: "int \<Rightarrow> tab \<Rightarrow> window list \<Rightarrow> window list" where
  "put_tab wid x ws =
     map (\<lambda>w. if win_id w = wid
              then w\<lparr> win_tabs := win_tabs w @ [x\<lparr> tab_windowId := wid \<rparr>] \<rparr> else w) ws"

fun move_tabs :: "int list \<Rightarrow> int \<Rightarrow> window list \<Rightarrow> window list option" where
  "move_tabs [] wid ws = Some ws"
| "move_tabs (t # ts) wid ws =
     (case find (\<lambda>x. tab_id x = t) (all_tabs ws) of
        None \<Rightarrow> None
      | Some x \<Rightarrow> move_tabs ts wid (put_tab wid x (drop_tab t ws)))"

definition b_query :: "browser \<Rightarrow> tab list option outcome" where
  "b_query b = Resolves (Some (filter (\<lambda>x. tab_id x = b_uiTab b) (all_tabs (b_windows b))))"

definition b_getAll :: "browser \<Rightarrow> window list outcome" where
  "b_getAll b = (if b_offline b then Rejects else Resolves (b_windows b))"

definition b_get :: "browser \<Rightarrow> int \<Rightarrow> window outcome" where
  "b_get b wid =
     (case find (\<lambda>w. win_id w = wid) (b_windows b) of
        None \<Rightarrow> Rejects
      | Some w \<Rightarrow> Resolves w)"

definition b_create :: "browser \<Rightarrow> int option \<Rightarrow> window option outcome \<times> browser" where
  "b_create b tabId =
     (case tabId of
        None \<Rightarrow> (Resolves None, b)
      | Some t \<Rightarrow>
          (case find (\<lambda>x. tab_id x = t) (all_tabs (b_windows b)) of
             None \<Rightarrow> (Resolves None, b)
           | Some x \<Rightarrow>
               (let nw = \<lparr> win_id = b_nextId b,
                           win_tabs = [x\<lparr> tab_windowId := b_nextId b \<rparr>] \<rparr>
                in (Resolves (Some nw),
                    b\<lparr> b_windows := drop_tab t (b_windows b) @ [nw],
                       b_focused := Some (b_nextId b),
                       b_nextId := b_nextId b + 1 \<rparr>))))"

definition b_move :: "browser \<Rightarrow> int list \<Rightarrow> int \<Rightarrow> int \<Rightarrow> unit outcome \<times> browser" where
  "b_move b ids wid index =
     (if wid \<notin> set (map win_id (b_windows b)) then (Rejects, b)
      else case move_tabs ids wid (b_windows b) of
             None \<Rightarrow> (Rejects, b)
           | Some ws \<Rightarrow> (Resolves (), b\<lparr> b_windows := ws \<rparr>))"

definition b_update :: "browser \<Rightarrow> int \<Rightarrow> unit outcome \<times> browser" where
  "b_update b wid =
     (if wid \<notin> set (map win_id (b_windows b)) then (Rejects, b)
      else (Resolves (), b\<lparr> b_focused := Some wid \<rparr>))"

definition browser_api :: "browser chrome" where
  "browser_api = \<lparr> tabs_query = b_query, windows_getAll = b_getAll, windows_get = b_get,
     windows_create = b_create, tabs_move = b_move, windows_update = b_update \<rparr>"

text \<open>A window of the small browser, given by its id and the ids of its tabs; the first
  tab is the active one.\<close>

definition mk_window :: "int \<Rightarrow> int list \<Rightarrow> window" where
  "mk_window wid ids =
     \<lparr> win_id = wid,
       win_tabs = map (\<lambda>i. \<lparr> tab_id = i, tab_windowId = wid, tab_active = (i = hd ids) \<rparr>) ids \<rparr>"

definition mk_browser :: "window list \<Rightarrow> int \<Rightarrow> int \<Rightarrow> browser" where
  "mk_browser ws next uiTab =
     \<lparr> b_windows = ws, b_focused = None, b_nextId = next, b_uiTab = uiTab,
       b_offline = False \<rparr>"

text \<open>The page after its first refresh in a browser.\<close>

definition loaded :: "browser \<Rightarrow> browser world" where
  "loaded b = loadWindowsAndTabs browser_api \<lparr> ui = initial_ui, host = b, trace = [] \<rparr>"

subsection \<open>Inputs used below\<close>

text \<open>Window 1 holds tabs 1, 2, 3 (tab 3 shows the page), window 2 holds tabs 4, 5.\<close>

definition two_windows :: browser where
  "two_windows = mk_browser [mk_window 1 [1, 2, 3], mk_window 2 [4, 5]] 3 3"

text \<open>Window 1 holds the page (tab 1), window 2 holds tabs 2, 3 and window 3 has no tab.\<close>

definition three_windows :: browser where
  "three_windows = mk_browser [mk_window 1 [1], mk_window 2 [2, 3], mk_window 3 []] 4 1"

text \<open>Window 3 of the page's list is gone from the browser.\<close>

definition window_gone :: "browser world" where
  "window_gone =
     (loaded (mk_browser [mk_window 1 [1], mk_window 2 [2, 3], mk_window 3 [7]] 4 1))
       \<lparr> host := mk_browser [mk_window 1 [1], mk_window 2 [2, 3]] 4 1 \<rparr>"

definition with_selections ::
  "int list \<Rightarrow> int list \<Rightarrow> int list \<Rightarrow> merge_mode \<Rightarrow> 'h world \<Rightarrow> 'h world" where
  "with_selections blue red yellow m w =
     w\<lparr> ui := (ui w)\<lparr> blueSelection := blue, redSelection := red,
                       yellowSelection := yellow, mergeMode := m \<rparr> \<rparr>"

text \<open>A page with all three selections in use whose browser has gone offline after
  its windows changed.\<close>

definition offline_world :: "browser world" where
  "offline_world =
     (with_selections [2] [1] [4] ModeYellow (loaded two_windows))
       \<lparr> host := (mk_browser [mk_window 7 [8]] 8 8)\<lparr> b_offline := True \<rparr> \<rparr>"

text \<open>The small browser, except that \<open>windows.update\<close> always rejects.\<close>

definition update_fails :: "browser chrome" where
  "update_fails = browser_api\<lparr> windows_update := \<lambda>h wid. (Rejects, h) \<rparr>"

text \<open>The windows of the small browser as pairs of a window id and its ordered tab ids.\<close>

definition shape :: "browser \<Rightarrow> (int \<times> int list) list" where
  "shape b = snapshot_of (b_windows b)"

definition plain_click :: mouse_event where
  "plain_click = \<lparr> clientX = 250, clientY = 50, button = 0, shiftKey = False,
     ctrlKey = False, metaKey = False, onCloseBtn = False \<rparr>"

definition ctrl_click :: mouse_event where
  "ctrl_click = plain_click\<lparr> ctrlKey := True \<rparr>"

definition meta_click :: mouse_event where
  "meta_click = plain_click\<lparr> metaKey := True \<rparr>"

definition shift_click :: mouse_event where
  "shift_click = plain_click\<lparr> shiftKey := True \<rparr>"

text \<open>Three cards in a row, and a page on which a drag has started at (110, 10) with tabs
  1 and 2 selected: released at (250, 50), the marquee meets the cards of tabs 2 and 3.\<close>

definition cards_row :: "(int \<times> rect) list" where
  "cards_row =
     [(1, \<lparr> r_left = 0, r_top = 0, r_right = 100, r_bottom = 100 \<rparr>),
      (2, \<lparr> r_left = 120, r_top = 0, r_right = 220, r_bottom = 100 \<rparr>),
      (3, \<lparr> r_left = 240, r_top = 0, r_right = 340, r_bottom = 100 \<rparr>)]"

definition dragging_ui :: ui_state where
  "dragging_ui =
     mousedown (plain_click\<lparr> clientX := 110, clientY := 10 \<rparr>)
       (initial_ui\<lparr> blueSelection := [1, 2] \<rparr>)"

text \<open>A page that lists one window with tabs 1 and 2, with a given Current selection.\<close>

definition one_window_ui :: "int list \<Rightarrow> ui_state" where
  "one_window_ui blue =
     initial_ui\<lparr> windowsData := [mk_window 1 [1, 2]], blueSelection := blue \<rparr>"

text \<open>The commands that move tabs to the end of window \<open>t\<close> or focus it.\<close>

definition to_target :: "int \<Rightarrow> event \<Rightarrow> bool" where
  "to_target t ev =
     (case ev of
        TabsMove ids wid index \<Rightarrow> wid = t \<and> index = - 1
      | WindowsUpdate wid \<Rightarrow> wid = t
      | _ \<Rightarrow> False)"

section \<open>Basic facts\<close>

lemmas run_defs = loaded_def mk_browser_def mk_window_def browser_api_def b_query_def
  b_getAll_def b_get_def b_create_def b_move_def b_update_def all_tabs_def drop_tab_def
  put_tab_def loadWindowsAndTabs_def refreshUiWindowId_def snapshot_of_def emit_def
  initial_ui_def truthy_def js_or_def send_create_def send_move_def send_update_def Let_def
  mergeBtn_onclick_def merge_done_def merge_failed_def splitBtn_onclick_def split_done_def
  split_failed_def mergeAllBtn_onclick_def mergeFromWindow_def targetWindowId_of_def
  with_selections_def shape_def two_windows_def three_windows_def window_gone_def

lemmas gesture_defs = plain_click_def ctrl_click_def meta_click_def shift_click_def
  cards_row_def dragging_ui_def one_window_ui_def mk_window_def initial_ui_def mousedown_def
  endDrag_def selectedIds_def marqueeClient_def rectsIntersect_def array_from_Set_def
  push_absent_def windowTab_click_def windowTab_dblclick_def toggleAllTabsInWindow_def
  selectAllTabsInWindow_def Let_def

lemma set_foldl_push_absent: "set (foldl push_absent acc xs) = set acc \<union> set xs"
  by (induction xs arbitrary: acc) (auto simp: push_absent_def)

lemma distinct_foldl_push_absent: "distinct acc \<Longrightarrow> distinct (foldl push_absent acc xs)"
  by (induction xs arbitrary: acc) (auto simp: push_absent_def)

lemma set_array_from_Set: "set (array_from_Set xs) = set xs"
  by (simp add: array_from_Set_def set_foldl_push_absent)

lemma distinct_array_from_Set: "distinct (array_from_Set xs)"
  by (simp add: array_from_Set_def distinct_foldl_push_absent)

lemma world_eqI:
  "ui w = u \<Longrightarrow> host w = h \<Longrightarrow> trace w = t \<Longrightarrow>
   (w :: 'h world) = \<lparr> ui = u, host = h, trace = t \<rparr>"
  by (cases w) simp

lemma emit_fields [simp]:
  "ui (emit ev w) = ui w" "host (emit ev w) = host w" "trace (emit ev w) = trace w @ [ev]"
  by (simp_all add: emit_def)

lemma refreshUi_host [simp]: "host (refreshUiWindowId api w) = host w"
  by (simp add: refreshUiWindowId_def split: outcome.splits option.splits list.splits)

lemma refreshUi_trace [simp]: "trace (refreshUiWindowId api w) = trace w"
  by (simp add: refreshUiWindowId_def split: outcome.splits option.splits list.splits)

lemma refreshUi_sel [simp]:
  "blueSelection (ui (refreshUiWindowId api w)) = blueSelection (ui w)"
  "redSelection (ui (refreshUiWindowId api w)) = redSelection (ui w)"
  "yellowSelection (ui (refreshUiWindowId api w)) = yellowSelection (ui w)"
  "mergeMode (ui (refreshUiWindowId api w)) = mergeMode (ui w)"
  "windowsData (ui (refreshUiWindowId api w)) = windowsData (ui w)"
  "lastSnapshot (ui (refreshUiWindowId api w)) = lastSnapshot (ui w)"
  "activeWindowId (ui (refreshUiWindowId api w)) = activeWindowId (ui w)"
  by (simp_all add: refreshUiWindowId_def split: outcome.splits option.splits list.splits)

lemma load_host [simp]: "host (loadWindowsAndTabs api w) = host w"
  by (simp add: loadWindowsAndTabs_def Let_def split: outcome.splits)

lemma load_sel [simp]:
  "blueSelection (ui (loadWindowsAndTabs api w)) = blueSelection (ui w)"
  "redSelection (ui (loadWindowsAndTabs api w)) = redSelection (ui w)"
  "yellowSelection (ui (loadWindowsAndTabs api w)) = yellowSelection (ui w)"
  "mergeMode (ui (loadWindowsAndTabs api w)) = mergeMode (ui w)"
  by (simp_all add: loadWindowsAndTabs_def Let_def split: outcome.splits)

lemma load_trace:
  "trace (loadWindowsAndTabs api w) =
     trace w @ Refresh # (if windows_getAll api (host w) = Rejects
                          then [ConsoleError ''Error loading windows:''] else [])"
  by (simp add: loadWindowsAndTabs_def Let_def split: outcome.splits)

lemma load_sorted:
  "sorted (map win_id (windowsData (ui w))) \<Longrightarrow>
   sorted (map win_id (windowsData (ui (loadWindowsAndTabs api w))))"
  by (auto simp: loadWindowsAndTabs_def Let_def split: outcome.splits)

text \<open>Stage 3 of the Merge button when the browser creates the window and moves the
  rest: the page ends in a refresh of the state with Source, Target and the stage reset.\<close>

lemma mergeBtn_stage3_success:
  assumes "mergeMode (ui w) = ModeYellow"
    and "redSelection (ui w) @ yellowSelection (ui w) = c # cs"
    and "windows_create api (host w) (Some c) = (Resolves (Some nw), h1)"
    and "if cs = [] then h2 = h1
         else tabs_move api h1 cs (win_id nw) (- 1) = (Resolves (), h2)"
  shows "mergeBtn_onclick api w =
           loadWindowsAndTabs api
             \<lparr> ui = (ui (refreshUiWindowId api w))
                      \<lparr> mergeMode := ModeNull, redSelection := [], yellowSelection := [] \<rparr>,
               host = h2,
               trace = trace w @ WindowsCreate (Some c) #
                         (if cs = [] then [] else [TabsMove cs (win_id nw) (- 1)]) \<rparr>"
  using assms
  by (cases "cs = []")
     (auto simp: mergeBtn_onclick_def Let_def send_create_def send_move_def
        merge_done_def emit_def intro!: arg_cong[where f="loadWindowsAndTabs api"] world_eqI)

section \<open>Staged merge: execution\<close>

text \<open>
  C1. When the merge stage is target-staged and Merge is invoked (stage 3), the ordered
  combination of all Source tabs followed by all Target tabs is built. Its first id \<open>c\<close>
  seeds a newly created window \<open>nw\<close>; the remaining ids \<open>cs\<close> are moved in one command,
  in their order, into that window at index -1 (the end). When the browser does both,
  Source and Target are cleared, the stage is idle and a refresh has been started. The
  trace lists exactly these commands, in this order; the browser is in the state \<open>h2\<close>
  the move left it in.
\<close>

theorem merge_stage3:
  assumes stage: "mergeMode (ui w) = ModeYellow"
    and comb: "redSelection (ui w) @ yellowSelection (ui w) = c # cs"
    and create: "windows_create api (host w) (Some c) = (Resolves (Some nw), h1)"
    and move: "if cs = [] then h2 = h1
               else tabs_move api h1 cs (win_id nw) (- 1) = (Resolves (), h2)"
  shows "trace (mergeBtn_onclick api w) =
           trace w @ WindowsCreate (Some c) #
             (if cs = [] then [] else [TabsMove cs (win_id nw) (- 1)]) @
             Refresh # (if windows_getAll api h2 = Rejects
                        then [ConsoleError ''Error loading windows:''] else []) \<and>
         host (mergeBtn_onclick api w) = h2 \<and>
         redSelection (ui (mergeBtn_onclick api w)) = [] \<and>
         yellowSelection (ui (mergeBtn_onclick api w)) = [] \<and>
         mergeMode (ui (mergeBtn_onclick api w)) = ModeNull"
  unfolding mergeBtn_stage3_success[OF assms] by (simp add: load_trace)


text \<open>The scenario of the specification: Source is tab 1 of window 1, Target is tab 4 of
  window 2; the new window 3 holds tabs 1 and 4, in this order.\<close>

theorem merge_stage3_witness:
  "trace (mergeBtn_onclick browser_api
            (with_selections [] [1] [4] ModeYellow (loaded two_windows))) =
     [Refresh, WindowsCreate (Some 1), TabsMove [4] 3 (- 1), Refresh] \<and>
   shape (host (mergeBtn_onclick browser_api
            (with_selections [] [1] [4] ModeYellow (loaded two_windows)))) =
     [(1, [2, 3]), (2, [5]), (3, [1, 4])] \<and>
   redSelection (ui (mergeBtn_onclick browser_api
            (with_selections [] [1] [4] ModeYellow (loaded two_windows)))) = [] \<and>
   yellowSelection (ui (mergeBtn_onclick browser_api
            (with_selections [] [1] [4] ModeYellow (loaded two_windows)))) = [] \<and>
   mergeMode (ui (mergeBtn_onclick browser_api
            (with_selections [] [1] [4] ModeYellow (loaded two_windows)))) = ModeNull"
proof -
  let ?w = "with_selections [] [1] [4] ModeYellow (loaded two_windows)"
  let ?nw = "\<lparr> win_id = 3, win_tabs = [\<lparr> tab_id = 1, tab_windowId = 3, tab_active = True \<rparr>] \<rparr>"
  define h1 where "h1 = snd (windows_create browser_api (host ?w) (Some 1))"
  define h2 where "h2 = snd (tabs_move browser_api h1 [4] 3 (- 1))"
  have stage: "mergeMode (ui ?w) = ModeYellow"
    by (simp add: with_selections_def)
  have comb: "redSelection (ui ?w) @ yellowSelection (ui ?w) = 1 # [4]"
    by (simp add: with_selections_def)
  have create: "windows_create browser_api (host ?w) (Some 1) = (Resolves (Some ?nw), h1)"
    by (simp add: h1_def run_defs)
  have move: "if [4::int] = [] then h2 = h1
              else tabs_move browser_api h1 [4] (win_id ?nw) (- 1) = (Resolves (), h2)"
    by (simp add: h2_def h1_def run_defs)
  have h2: "shape h2 = [(1, [2, 3]), (2, [5]), (3, [1, 4])]"
    "windows_getAll browser_api h2 \<noteq> Rejects"
    by (simp_all add: h2_def h1_def run_defs)
  have tr: "trace ?w = [Refresh]"
    by (simp add: run_defs)
  show ?thesis
    using merge_stage3[OF stage comb create move] h2 tr by simp
qed

section \<open>Staged merge: empty Current at stage 2\<close>

text \<open>The branch of stage 2 that reports \<open>No target tabs selected\<close> is never taken: the
  guard at the top of the handler has already returned for an empty Current in every stage
  but \<open>'yellow'\<close>.\<close>

lemma stage2_notice_unreachable:
  assumes "Alert ''No target tabs selected'' \<in> set (trace (mergeBtn_onclick api w))"
  shows "Alert ''No target tabs selected'' \<in> set (trace w)"
  using assms
  by (auto simp: mergeBtn_onclick_def Let_def merge_failed_def merge_done_def load_trace
        send_create_def send_move_def
      split: if_splits merge_mode.splits prod.splits outcome.splits option.splits)

lemma stage2_empty_current_general:
  assumes "mergeMode (ui w) = ModeRed" and "blueSelection (ui w) = []"
  shows "mergeBtn_onclick api w = emit (Alert ''No tabs selected'') (refreshUiWindowId api w)"
  using assms by (simp add: mergeBtn_onclick_def Let_def)

text \<open>
  C2. The claim: source-staged, Merge invoked with an empty Current reports
  \<open>No target tabs selected\<close>, the stage is source-staged afterwards, Source is kept and
  Target stays empty. On the code the notice is \<open>No tabs selected\<close>; the stage stays
  source-staged, Source is kept and Target stays empty.
\<close>

theorem merge_stage2_empty_current:
  "trace (mergeBtn_onclick browser_api
            (with_selections [] [1] [] ModeRed (loaded two_windows))) =
     [Refresh, Alert ''No tabs selected''] \<and>
   mergeMode (ui (mergeBtn_onclick browser_api
            (with_selections [] [1] [] ModeRed (loaded two_windows)))) = ModeRed \<and>
   redSelection (ui (mergeBtn_onclick browser_api
            (with_selections [] [1] [] ModeRed (loaded two_windows)))) = [1] \<and>
   yellowSelection (ui (mergeBtn_onclick browser_api
            (with_selections [] [1] [] ModeRed (loaded two_windows)))) = []"
  by (simp add: run_defs)

section \<open>Split\<close>

text \<open>The paths of Split that behave as described, for every browser: an empty Current
  gives the notice and no command; when the browser creates the window and moves the
  rest, Current is cleared and a refresh is started; a failure that throws (a rejected
  call, or the read of \<open>newWin.id\<close> when there is more to move) gives the notice and leaves
  Current as it was.\<close>

lemma split_empty_current:
  assumes "blueSelection (ui w) = []"
  shows "trace (splitBtn_onclick api w) = trace w @ [Alert ''No tabs selected''] \<and>
         host (splitBtn_onclick api w) = host w"
  using assms by (simp add: splitBtn_onclick_def Let_def)

lemma split_success:
  assumes "blueSelection (ui w) = c # cs"
    and "windows_create api (host w) (Some c) = (Resolves (Some nw), h1)"
    and "if cs = [] then h2 = h1
         else tabs_move api h1 cs (win_id nw) (- 1) = (Resolves (), h2)"
  shows "blueSelection (ui (splitBtn_onclick api w)) = [] \<and>
         host (splitBtn_onclick api w) = h2 \<and>
         trace (splitBtn_onclick api w) =
           trace w @ WindowsCreate (Some c) #
             (if cs = [] then [] else [TabsMove cs (win_id nw) (- 1)]) @
             Refresh # (if windows_getAll api h2 = Rejects
                        then [ConsoleError ''Error loading windows:''] else [])"
  using assms
  by (cases "cs = []")
     (simp_all add: splitBtn_onclick_def Let_def send_create_def send_move_def split_done_def
        load_trace)

lemma split_thrown_failure:
  assumes "blueSelection (ui w) = c # cs"
    and "fst (windows_create api (host w) (Some c)) = Rejects \<or>
         (cs \<noteq> [] \<and> fst (windows_create api (host w) (Some c)) = Resolves None) \<or>
         (cs \<noteq> [] \<and> windows_create api (host w) (Some c) = (Resolves (Some nw), h1) \<and>
          fst (tabs_move api h1 cs (win_id nw) (- 1)) = Rejects)"
  shows "blueSelection (ui (splitBtn_onclick api w)) = c # cs \<and>
         Alert ''Split failed'' \<in> set (trace (splitBtn_onclick api w))"
  using assms
  by (auto simp: splitBtn_onclick_def Let_def send_create_def send_move_def split_failed_def
      split: prod.splits outcome.splits option.splits)

text \<open>For every browser: when Current holds one id and the browser hands no window to
  the callback of \<open>windows.create\<close>, nothing throws, so Split clears Current and starts a
  refresh without any notice.\<close>

lemma split_single_tab_no_window:
  assumes "blueSelection (ui w) = [t]"
    and "windows_create api (host w) (Some t) = (Resolves None, h1)"
  shows "blueSelection (ui (splitBtn_onclick api w)) = [] \<and>
         trace (splitBtn_onclick api w) =
           trace w @ WindowsCreate (Some t) # Refresh #
             (if windows_getAll api h1 = Rejects
              then [ConsoleError ''Error loading windows:''] else [])"
  using assms
  by (simp add: splitBtn_onclick_def Let_def send_create_def split_done_def load_trace)

text \<open>
  C3. The claim: Split with an empty Current reports \<open>No tabs selected\<close> and creates no
  window; otherwise the first id seeds a new window and the rest is appended to it; on
  success Current is cleared and a refresh is started; on failure a notice is shown and
  Current is left untouched. The last part fails for Current = [9] where tab 9 no longer
  exists: the browser creates no window, yet no failure notice is shown and Current is
  cleared.
\<close>

theorem split_single_stale_tab:
  "windows_create browser_api two_windows (Some 9) = (Resolves None, two_windows) \<and>
   trace (splitBtn_onclick browser_api
            (with_selections [9] [] [] ModeNull (loaded two_windows))) =
     [Refresh, WindowsCreate (Some 9), Refresh] \<and>
   blueSelection (ui (splitBtn_onclick browser_api
            (with_selections [9] [] [] ModeNull (loaded two_windows)))) = [] \<and>
   shape (host (splitBtn_onclick browser_api
            (with_selections [9] [] [] ModeNull (loaded two_windows)))) =
     [(1, [1, 2, 3]), (2, [4, 5])]"
  by (simp add: run_defs)

text \<open>With a second id in Current the same failure reaches the \<open>catch\<close> block, through
  the read of \<open>newWin.id\<close>: the notice is shown and Current is kept.\<close>

lemma split_two_tabs_first_stale:
  "trace (splitBtn_onclick browser_api
            (with_selections [9, 2] [] [] ModeNull (loaded two_windows))) =
     [Refresh, WindowsCreate (Some 9), ConsoleError ''Split failed:'', Alert ''Split failed''] \<and>
   blueSelection (ui (splitBtn_onclick browser_api
            (with_selections [9, 2] [] [] ModeNull (loaded two_windows)))) = [9, 2]"
  by (simp add: run_defs)

section \<open>Merge All\<close>

lemma mergeAll_loop_append:
  "mergeAll_loop api t (ws1 @ ws2) w =
     (case mergeAll_loop api t ws1 w of
        (Rejects, w1) \<Rightarrow> (Rejects, w1)
      | (Resolves x, w1) \<Rightarrow> mergeAll_loop api t ws2 w1)"
  by (induction ws1 arbitrary: w) (auto split: prod.splits outcome.splits)

lemma mergeFromWindow_trace:
  "\<exists>evs. trace (snd (mergeFromWindow api t s w)) = trace w @ evs \<and> list_all (to_target t) evs"
  by (auto simp: mergeFromWindow_def Let_def send_move_def send_update_def to_target_def
      split: outcome.splits prod.splits)

lemma mergeAll_loop_trace:
  "\<exists>evs. trace (snd (mergeAll_loop api t ws w)) = trace w @ evs \<and> list_all (to_target t) evs"
proof (induction ws arbitrary: w)
  case Nil
  then show ?case by simp
next
  case (Cons win ws)
  show ?case
  proof (cases "win_id win = t")
    case True
    then show ?thesis using Cons.IH[of w] by simp
  next
    case False
    obtain r w1 where m: "mergeFromWindow api t (win_id win) w = (r, w1)"
      by (cases "mergeFromWindow api t (win_id win) w")
    obtain e1 where e1: "trace w1 = trace w @ e1" "list_all (to_target t) e1"
      using mergeFromWindow_trace[of api t "win_id win" w] m by auto
    show ?thesis
    proof (cases r)
      case Rejects
      then show ?thesis using False m e1 by simp
    next
      case (Resolves x)
      obtain e2 where e2: "trace (snd (mergeAll_loop api t ws w1)) = trace w1 @ e2"
        "list_all (to_target t) e2"
        using Cons.IH[of w1] by auto
      show ?thesis using False m Resolves e1 e2 by simp
    qed
  qed
qed

lemma nonzero_ids: "0 \<notin> set ids \<Longrightarrow> filter (\<lambda>i. i \<noteq> 0) ids = (ids :: int list)"
  by (induction ids) auto

text \<open>
  C4. Merge All. The target is the window that hosts the page (the window of the first
  tab the query for ui.html returns, else the last known one), falling back to the active
  window and then to the first window of the list, which every refresh leaves sorted by
  id. The loop goes through the list in order, one window after the other (\<open>pre @ post\<close>):
  the target itself is passed over; a window without tabs gets no command and changes
  nothing; for any other window whose tab ids are all non-zero, all its tab ids are moved,
  in order, to index -1 (the end) of the target, and the target is focused. A rejected
  call ends the loop at once, with what was done so far left as it is, and the handler
  reports \<open>Merge All failed\<close>; otherwise it starts a refresh. Every command of the loop
  moves tabs to the end of the target or focuses the target.
\<close>

theorem mergeAll_sequential:
  "(tabs_query api (host w) = Resolves (Some (p # ps)) \<longrightarrow>
      uiWindowId (ui (refreshUiWindowId api w)) = Some (tab_windowId p)) \<and>
   targetWindowId_of u =
     (if truthy (uiWindowId u) then uiWindowId u
      else if truthy (activeWindowId u) then activeWindowId u
      else case windowsData u of [] \<Rightarrow> None | x # xs \<Rightarrow> Some (win_id x)) \<and>
   (sorted (map win_id (windowsData (ui w))) \<longrightarrow>
      sorted (map win_id (windowsData (ui (loadWindowsAndTabs api w))))) \<and>
   (targetWindowId_of (ui (refreshUiWindowId api w)) = Some t \<and> t \<noteq> 0 \<and>
    mergeAll_loop api t (windowsData (ui w)) (refreshUiWindowId api w) = (Resolves (), w') \<longrightarrow>
      mergeAllBtn_onclick api w = loadWindowsAndTabs api w') \<and>
   (targetWindowId_of (ui (refreshUiWindowId api w)) = Some t \<and> t \<noteq> 0 \<and>
    mergeAll_loop api t (windowsData (ui w)) (refreshUiWindowId api w) = (Rejects, w') \<longrightarrow>
      mergeAllBtn_onclick api w =
        emit (Alert ''Merge All failed'') (emit (ConsoleError ''Merge All failed:'') w')) \<and>
   (mergeAll_loop api t pre w = (Resolves (), wm) \<longrightarrow>
      mergeAll_loop api t (pre @ post) w = mergeAll_loop api t post wm) \<and>
   (mergeAll_loop api t pre w = (Rejects, wm) \<longrightarrow>
      mergeAll_loop api t (pre @ post) w = (Rejects, wm)) \<and>
   (win_id win = t \<longrightarrow> mergeAll_loop api t [win] w = (Resolves (), w)) \<and>
   (win_id win \<noteq> t \<and> windows_get api (host w) (win_id win) = Resolves src \<and>
    win_tabs src = [] \<longrightarrow>
      mergeAll_loop api t [win] w = (Resolves (), w)) \<and>
   (win_id win \<noteq> t \<and> windows_get api (host w) (win_id win) = Resolves src \<and>
    win_tabs src \<noteq> [] \<and> 0 \<notin> set (map tab_id (win_tabs src)) \<and>
    tabs_move api (host w) (map tab_id (win_tabs src)) t (- 1) = (Resolves (), hm) \<and>
    windows_update api hm t = (Resolves (), hf) \<longrightarrow>
      mergeAll_loop api t [win] w =
        (Resolves (),
         \<lparr> ui = ui w, host = hf,
           trace = trace w @ [TabsMove (map tab_id (win_tabs src)) t (- 1), WindowsUpdate t] \<rparr>)) \<and>
   (win_id win \<noteq> t \<and> windows_get api (host w) (win_id win) = Rejects \<longrightarrow>
      mergeAll_loop api t [win] w = (Rejects, w)) \<and>
   (win_id win \<noteq> t \<and> windows_get api (host w) (win_id win) = Resolves src \<and>
    win_tabs src \<noteq> [] \<and> 0 \<notin> set (map tab_id (win_tabs src)) \<and>
    tabs_move api (host w) (map tab_id (win_tabs src)) t (- 1) = (Rejects, hm) \<longrightarrow>
      mergeAll_loop api t [win] w =
        (Rejects,
         \<lparr> ui = ui w, host = hm,
           trace = trace w @ [TabsMove (map tab_id (win_tabs src)) t (- 1)] \<rparr>)) \<and>
   (win_id win \<noteq> t \<and> windows_get api (host w) (win_id win) = Resolves src \<and>
    win_tabs src \<noteq> [] \<and> 0 \<notin> set (map tab_id (win_tabs src)) \<and>
    tabs_move api (host w) (map tab_id (win_tabs src)) t (- 1) = (Resolves (), hm) \<and>
    windows_update api hm t = (Rejects, hf) \<longrightarrow>
      mergeAll_loop api t [win] w =
        (Rejects,
         \<lparr> ui = ui w, host = hf,
           trace = trace w @ [TabsMove (map tab_id (win_tabs src)) t (- 1), WindowsUpdate t] \<rparr>)) \<and>
   (\<exists>evs. trace (snd (mergeAll_loop api t ws w)) = trace w @ evs \<and>
          list_all (to_target t) evs)"
proof -
  have query: "tabs_query api (host w) = Resolves (Some (p # ps)) \<longrightarrow>
      uiWindowId (ui (refreshUiWindowId api w)) = Some (tab_windowId p)"
    by (simp add: refreshUiWindowId_def)
  have target: "targetWindowId_of u =
     (if truthy (uiWindowId u) then uiWindowId u
      else if truthy (activeWindowId u) then activeWindowId u
      else case windowsData u of [] \<Rightarrow> None | x # xs \<Rightarrow> Some (win_id x))"
    by (simp add: targetWindowId_of_def js_or_def)
  have finished: "targetWindowId_of (ui (refreshUiWindowId api w)) = Some t \<and> t \<noteq> 0 \<and>
    mergeAll_loop api t (windowsData (ui w)) (refreshUiWindowId api w) = (Resolves (), w') \<longrightarrow>
      mergeAllBtn_onclick api w = loadWindowsAndTabs api w'"
    by (simp add: mergeAllBtn_onclick_def Let_def)
  have failed: "targetWindowId_of (ui (refreshUiWindowId api w)) = Some t \<and> t \<noteq> 0 \<and>
    mergeAll_loop api t (windowsData (ui w)) (refreshUiWindowId api w) = (Rejects, w') \<longrightarrow>
      mergeAllBtn_onclick api w =
        emit (Alert ''Merge All failed'') (emit (ConsoleError ''Merge All failed:'') w')"
    by (simp add: mergeAllBtn_onclick_def Let_def)
  have seq: "mergeAll_loop api t pre w = (Resolves (), wm) \<longrightarrow>
      mergeAll_loop api t (pre @ post) w = mergeAll_loop api t post wm"
    by (simp add: mergeAll_loop_append)
  have abort: "mergeAll_loop api t pre w = (Rejects, wm) \<longrightarrow>
      mergeAll_loop api t (pre @ post) w = (Rejects, wm)"
    by (simp add: mergeAll_loop_append)
  have step:
    "win_id win = t \<longrightarrow> mergeAll_loop api t [win] w = (Resolves (), w)"
    "win_id win \<noteq> t \<and> windows_get api (host w) (win_id win) = Resolves src \<and>
     win_tabs src = [] \<longrightarrow> mergeAll_loop api t [win] w = (Resolves (), w)"
    "win_id win \<noteq> t \<and> windows_get api (host w) (win_id win) = Rejects \<longrightarrow>
      mergeAll_loop api t [win] w = (Rejects, w)"
    by (simp_all add: mergeFromWindow_def)
  have moved: "win_id win \<noteq> t \<and> windows_get api (host w) (win_id win) = Resolves src \<and>
    win_tabs src \<noteq> [] \<and> 0 \<notin> set (map tab_id (win_tabs src)) \<and>
    tabs_move api (host w) (map tab_id (win_tabs src)) t (- 1) = (Resolves (), hm) \<and>
    windows_update api hm t = (Resolves (), hf) \<longrightarrow>
      mergeAll_loop api t [win] w =
        (Resolves (),
         \<lparr> ui = ui w, host = hf,
           trace = trace w @ [TabsMove (map tab_id (win_tabs src)) t (- 1), WindowsUpdate t] \<rparr>)"
    by (auto simp: mergeFromWindow_def Let_def nonzero_ids send_move_def send_update_def
          emit_def intro!: world_eqI)
  have move_rejected: "win_id win \<noteq> t \<and> windows_get api (host w) (win_id win) = Resolves src \<and>
    win_tabs src \<noteq> [] \<and> 0 \<notin> set (map tab_id (win_tabs src)) \<and>
    tabs_move api (host w) (map tab_id (win_tabs src)) t (- 1) = (Rejects, hm) \<longrightarrow>
      mergeAll_loop api t [win] w =
        (Rejects,
         \<lparr> ui = ui w, host = hm,
           trace = trace w @ [TabsMove (map tab_id (win_tabs src)) t (- 1)] \<rparr>)"
    by (auto simp: mergeFromWindow_def Let_def nonzero_ids send_move_def send_update_def
          emit_def intro!: world_eqI)
  have update_rejected: "win_id win \<noteq> t \<and> windows_get api (host w) (win_id win) = Resolves src \<and>
    win_tabs src \<noteq> [] \<and> 0 \<notin> set (map tab_id (win_tabs src)) \<and>
    tabs_move api (host w) (map tab_id (win_tabs src)) t (- 1) = (Resolves (), hm) \<and>
    windows_update api hm t = (Rejects, hf) \<longrightarrow>
      mergeAll_loop api t [win] w =
        (Rejects,
         \<lparr> ui = ui w, host = hf,
           trace = trace w @ [TabsMove (map tab_id (win_tabs src)) t (- 1), WindowsUpdate t] \<rparr>)"
    by (auto simp: mergeFromWindow_def Let_def nonzero_ids send_move_def send_update_def
          emit_def intro!: world_eqI)
  show ?thesis
    using query target load_sorted[of w api] finished failed seq abort step moved move_rejected
      update_rejected mergeAll_loop_trace[of api t ws w]
    by blast
qed

text \<open>The scenario of the specification (window 1 hosts the page, window 2 holds tabs 2
  and 3, window 3 is empty), the fallbacks of the target, a window of the list that the
  browser no longer has, a rejected move and a rejected focus.\<close>

theorem mergeAll_sequential_witness:
  "uiWindowId (ui (refreshUiWindowId browser_api (loaded three_windows))) = Some 1 \<and>
   targetWindowId_of (ui (loaded three_windows)) = Some 1 \<and>
   targetWindowId_of (initial_ui\<lparr> activeWindowId := Some 2 \<rparr>) = Some 2 \<and>
   targetWindowId_of (initial_ui\<lparr> windowsData := [mk_window 5 [8]] \<rparr>) = Some 5 \<and>
   map win_id (windowsData (ui (loaded three_windows))) = [1, 2, 3] \<and>
   trace (mergeAllBtn_onclick browser_api (loaded three_windows)) =
     [Refresh, TabsMove [2, 3] 1 (- 1), WindowsUpdate 1, Refresh] \<and>
   shape (host (mergeAllBtn_onclick browser_api (loaded three_windows))) =
     [(1, [1, 2, 3]), (2, []), (3, [])] \<and>
   b_focused (host (mergeAllBtn_onclick browser_api (loaded three_windows))) = Some 1 \<and>
   mergeAll_loop browser_api 1 [mk_window 1 [1]] (loaded three_windows) =
     (Resolves (), loaded three_windows) \<and>
   mergeAll_loop browser_api 1 [mk_window 3 []] (loaded three_windows) =
     (Resolves (), loaded three_windows) \<and>
   trace (mergeAllBtn_onclick browser_api window_gone) =
     [Refresh, TabsMove [2, 3] 1 (- 1), WindowsUpdate 1,
      ConsoleError ''Merge All failed:'', Alert ''Merge All failed''] \<and>
   shape (host (mergeAllBtn_onclick browser_api window_gone)) = [(1, [1, 2, 3]), (2, [])] \<and>
   fst (mergeAll_loop browser_api 9 [mk_window 2 [2, 3]] (loaded three_windows)) = Rejects \<and>
   trace (snd (mergeAll_loop browser_api 9 [mk_window 2 [2, 3]] (loaded three_windows))) =
     [Refresh, TabsMove [2, 3] 9 (- 1)] \<and>
   fst (mergeAll_loop update_fails 1 [mk_window 2 [2, 3], mk_window 3 []]
          (loaded three_windows)) = Rejects \<and>
   trace (snd (mergeAll_loop update_fails 1 [mk_window 2 [2, 3], mk_window 3 []]
          (loaded three_windows))) = [Refresh, TabsMove [2, 3] 1 (- 1), WindowsUpdate 1]"
proof -
  let ?w = "loaded three_windows"
  let ?W1 = "mk_window 1 [1]"
  let ?W2 = "mk_window 2 [2, 3]"
  let ?W3 = "mk_window 3 []"
  let ?h1 = "snd (tabs_move browser_api (host ?w) [2, 3] 1 (- 1))"
  let ?h2 = "snd (windows_update browser_api ?h1 1)"
  let ?w' = "snd (mergeAll_loop browser_api 1 (windowsData (ui ?w))
                    (refreshUiWindowId browser_api ?w))"
  let ?w1 = "snd (mergeAll_loop browser_api 1 [?W1, ?W2] ?w)"
  have ok:
    "uiWindowId (ui (refreshUiWindowId browser_api ?w)) = Some 1"
    "targetWindowId_of (ui ?w) = Some 1"
    "map win_id (windowsData (ui ?w)) = [1, 2, 3]"
    "trace (mergeAllBtn_onclick browser_api ?w) =
       [Refresh, TabsMove [2, 3] 1 (- 1), WindowsUpdate 1, Refresh]"
    "shape (host (mergeAllBtn_onclick browser_api ?w)) = [(1, [1, 2, 3]), (2, []), (3, [])]"
    "b_focused (host (mergeAllBtn_onclick browser_api ?w)) = Some 1"
    using mergeAll_sequential[where api = browser_api and w = ?w
        and p = "\<lparr> tab_id = 1, tab_windowId = 1, tab_active = True \<rparr>" and ps = "[]"
        and u = "ui ?w" and t = 1 and w' = ?w' and pre = "[?W1, ?W2]" and wm = ?w1
        and post = "[?W3]" and win = ?W2 and src = ?W2 and hm = ?h1 and hf = ?h2
        and ws = "windowsData (ui ?w)"]
    by (simp_all add: run_defs)
  have skip:
    "mergeAll_loop browser_api 1 [?W1] ?w = (Resolves (), ?w)"
    "mergeAll_loop browser_api 1 [?W3] ?w = (Resolves (), ?w)"
    using mergeAll_sequential[where api = browser_api and w = ?w
        and p = "\<lparr> tab_id = 1, tab_windowId = 1, tab_active = True \<rparr>" and ps = "[]"
        and u = "ui ?w" and t = 1 and w' = ?w' and pre = "[?W1, ?W2]" and wm = ?w1
        and post = "[?W3]" and win = ?W1 and src = ?W1 and hm = ?h1 and hf = ?h2
        and ws = "windowsData (ui ?w)"]
      mergeAll_sequential[where api = browser_api and w = ?w
        and p = "\<lparr> tab_id = 1, tab_windowId = 1, tab_active = True \<rparr>" and ps = "[]"
        and u = "ui ?w" and t = 1 and w' = ?w' and pre = "[?W1, ?W2]" and wm = ?w1
        and post = "[?W3]" and win = ?W3 and src = ?W3 and hm = ?h1 and hf = ?h2
        and ws = "windowsData (ui ?w)"]
    by (simp_all add: run_defs)
  let ?g = window_gone
  let ?G3 = "mk_window 3 [7]"
  let ?g' = "snd (mergeAll_loop browser_api 1 (windowsData (ui ?g))
                    (refreshUiWindowId browser_api ?g))"
  let ?gm = "snd (mergeAll_loop browser_api 1 [?W1, ?W2] ?g)"
  have gone:
    "trace (mergeAllBtn_onclick browser_api ?g) =
       [Refresh, TabsMove [2, 3] 1 (- 1), WindowsUpdate 1,
        ConsoleError ''Merge All failed:'', Alert ''Merge All failed'']"
    "shape (host (mergeAllBtn_onclick browser_api ?g)) = [(1, [1, 2, 3]), (2, [])]"
    using mergeAll_sequential[where api = browser_api and w = ?g
        and p = "\<lparr> tab_id = 1, tab_windowId = 1, tab_active = True \<rparr>" and ps = "[]"
        and u = "ui ?g" and t = 1 and w' = ?g' and pre = "[?W1, ?W2]" and wm = ?gm
        and post = "[?G3]" and win = ?G3 and src = ?G3 and hm = "host ?g" and hf = "host ?g"
        and ws = "windowsData (ui ?g)"]
    by (simp_all add: run_defs)
  have fallback:
    "targetWindowId_of (initial_ui\<lparr> activeWindowId := Some 2 \<rparr>) = Some 2"
    "targetWindowId_of (initial_ui\<lparr> windowsData := [mk_window 5 [8]] \<rparr>) = Some 5"
    using mergeAll_sequential[where api = browser_api and w = ?w
        and p = "\<lparr> tab_id = 1, tab_windowId = 1, tab_active = True \<rparr>" and ps = "[]"
        and u = "initial_ui\<lparr> activeWindowId := Some 2 \<rparr>" and t = 1 and w' = ?w'
        and pre = "[?W1, ?W2]" and wm = ?w1
        and post = "[?W3]" and win = ?W1 and src = ?W1 and hm = ?h1 and hf = ?h2
        and ws = "windowsData (ui ?w)"]
      mergeAll_sequential[where api = browser_api and w = ?w
        and p = "\<lparr> tab_id = 1, tab_windowId = 1, tab_active = True \<rparr>" and ps = "[]"
        and u = "initial_ui\<lparr> windowsData := [mk_window 5 [8]] \<rparr>" and t = 1 and w' = ?w'
        and pre = "[?W1, ?W2]" and wm = ?w1
        and post = "[?W3]" and win = ?W1 and src = ?W1 and hm = ?h1 and hf = ?h2
        and ws = "windowsData (ui ?w)"]
    by (simp_all add: run_defs)
  let ?m9 = "snd (mergeAll_loop browser_api 9 [?W2] ?w)"
  have move_rejected:
    "fst (mergeAll_loop browser_api 9 [?W2] ?w) = Rejects"
    "trace (snd (mergeAll_loop browser_api 9 [?W2] ?w)) = [Refresh, TabsMove [2, 3] 9 (- 1)]"
    using mergeAll_sequential[where api = browser_api and w = ?w
        and p = "\<lparr> tab_id = 1, tab_windowId = 1, tab_active = True \<rparr>" and ps = "[]"
        and u = "ui ?w" and t = 9 and w' = ?m9 and pre = "[?W2]" and wm = ?m9
        and post = "[?W3]" and win = ?W2 and src = ?W2 and hm = "host ?w" and hf = "host ?w"
        and ws = "[?W2]"]
    by (simp_all add: run_defs)
  let ?u1 = "snd (mergeAll_loop update_fails 1 [?W2] ?w)"
  have update_rejected:
    "fst (mergeAll_loop update_fails 1 [?W2, ?W3] ?w) = Rejects"
    "trace (snd (mergeAll_loop update_fails 1 [?W2, ?W3] ?w)) =
       [Refresh, TabsMove [2, 3] 1 (- 1), WindowsUpdate 1]"
    using mergeAll_sequential[where api = update_fails and w = ?w
        and p = "\<lparr> tab_id = 1, tab_windowId = 1, tab_active = True \<rparr>" and ps = "[]"
        and u = "ui ?w" and t = 1 and w' = ?u1 and pre = "[?W2]" and wm = ?u1
        and post = "[?W3]" and win = ?W2 and src = ?W2 and hm = ?h1 and hf = ?h1
        and ws = "[?W2]"]
    by (simp_all add: run_defs update_fails_def)
  show ?thesis
    using ok skip gone fallback move_rejected update_rejected by simp
qed

section \<open>Escape\<close>

text \<open>
  C5. Pressing Escape, in every state (any merge stage, any contents of the three
  selections), clears Current, Source and Target together and resets the merge stage to
  idle.
\<close>

theorem escape_clears_everything:
  "blueSelection (keydown ''Escape'' u) = [] \<and>
   redSelection (keydown ''Escape'' u) = [] \<and>
   yellowSelection (keydown ''Escape'' u) = [] \<and>
   mergeMode (keydown ''Escape'' u) = ModeNull"
  by (simp add: keydown_def)

section \<open>Selections after a successful merge\<close>

text \<open>The staged merge of the specification's scenario succeeds with tab 2 in Current:
  tab 2 is still in Current afterwards.\<close>

theorem merge_success_keeps_current_counterexample:
  "mergeMode (ui (with_selections [2] [1] [4] ModeYellow (loaded two_windows))) = ModeYellow \<and>
   shape (host (mergeBtn_onclick browser_api
            (with_selections [2] [1] [4] ModeYellow (loaded two_windows)))) =
     [(1, [2, 3]), (2, [5]), (3, [1, 4])] \<and>
   trace (mergeBtn_onclick browser_api
            (with_selections [2] [1] [4] ModeYellow (loaded two_windows))) =
     [Refresh, WindowsCreate (Some 1), TabsMove [4] 3 (- 1), Refresh] \<and>
   blueSelection (ui (mergeBtn_onclick browser_api
            (with_selections [2] [1] [4] ModeYellow (loaded two_windows)))) = [2]"
  by (simp add: run_defs)

text \<open>
  C6, as the code has it. On successful completion of the staged merge, Source and
  Target are cleared and the stage is idle; Current keeps its content.
\<close>

theorem merge_success_selections:
  assumes "mergeMode (ui w) = ModeYellow"
    and "redSelection (ui w) @ yellowSelection (ui w) = c # cs"
    and "windows_create api (host w) (Some c) = (Resolves (Some nw), h1)"
    and "if cs = [] then h2 = h1
         else tabs_move api h1 cs (win_id nw) (- 1) = (Resolves (), h2)"
  shows "redSelection (ui (mergeBtn_onclick api w)) = [] \<and>
         yellowSelection (ui (mergeBtn_onclick api w)) = [] \<and>
         mergeMode (ui (mergeBtn_onclick api w)) = ModeNull \<and>
         blueSelection (ui (mergeBtn_onclick api w)) = blueSelection (ui w)"
  unfolding mergeBtn_stage3_success[OF assms] by simp

theorem merge_success_selections_witness:
  "redSelection (ui (mergeBtn_onclick browser_api
            (with_selections [5] [2, 3] [4] ModeYellow (loaded two_windows)))) = [] \<and>
   yellowSelection (ui (mergeBtn_onclick browser_api
            (with_selections [5] [2, 3] [4] ModeYellow (loaded two_windows)))) = [] \<and>
   mergeMode (ui (mergeBtn_onclick browser_api
            (with_selections [5] [2, 3] [4] ModeYellow (loaded two_windows)))) = ModeNull \<and>
   blueSelection (ui (mergeBtn_onclick browser_api
            (with_selections [5] [2, 3] [4] ModeYellow (loaded two_windows)))) = [5]"
proof -
  let ?w = "with_selections [5] [2, 3] [4] ModeYellow (loaded two_windows)"
  let ?nw = "\<lparr> win_id = 3, win_tabs = [\<lparr> tab_id = 2, tab_windowId = 3, tab_active = False \<rparr>] \<rparr>"
  define h1 where "h1 = snd (windows_create browser_api (host ?w) (Some 2))"
  define h2 where "h2 = snd (tabs_move browser_api h1 [3, 4] 3 (- 1))"
  have stage: "mergeMode (ui ?w) = ModeYellow"
    by (simp add: with_selections_def)
  have comb: "redSelection (ui ?w) @ yellowSelection (ui ?w) = 2 # [3, 4]"
    by (simp add: with_selections_def)
  have create: "windows_create browser_api (host ?w) (Some 2) = (Resolves (Some ?nw), h1)"
    by (simp add: h1_def run_defs)
  have move: "if [3, 4::int] = [] then h2 = h1
              else tabs_move browser_api h1 [3, 4] (win_id ?nw) (- 1) = (Resolves (), h2)"
    by (simp add: h2_def h1_def run_defs)
  have blue: "blueSelection (ui ?w) = [5]"
    by (simp add: with_selections_def)
  show ?thesis
    using merge_success_selections[OF stage comb create move] blue by simp
qed

section \<open>Releasing a drag\<close>

text \<open>Released with Cmd alone, a drag over the cards of tabs 2 and 3 adds them to
  Current = [1, 2]: the result is not ignored.\<close>

theorem drag_release_meta_counterexample:
  "isDragging dragging_ui \<and> metaKey meta_click \<and> \<not> shiftKey meta_click \<and>
   selectedIds (marqueeClient \<lparr> p_x = 110, p_y = 10 \<rparr> meta_click) cards_row = [2, 3] \<and>
   blueSelection dragging_ui = [1, 2] \<and>
   blueSelection (endDrag meta_click cards_row dragging_ui) = [1, 2, 3]"
  by (simp add: gesture_defs)

text \<open>
  C7, as the code has it. On a drag release with a non-empty intersecting set: with
  Shift or Cmd (\<open>metaKey\<close>) held, Current becomes the union of its prior contents and the
  intersecting ids, duplicates collapsed; with none of Shift, Cmd and Ctrl held, Current
  is replaced outright by the intersecting ids; with Ctrl held and neither Shift nor Cmd,
  the drag result is ignored and Current is unchanged.
\<close>

theorem drag_release:
  assumes "isDragging u" and "dragStart u = Some ds"
    and "selectedIds (marqueeClient ds e) cards = sel" and "sel \<noteq> []"
  shows "(shiftKey e \<or> metaKey e \<longrightarrow>
            blueSelection (endDrag e cards u) = array_from_Set (blueSelection u @ sel) \<and>
            set (blueSelection (endDrag e cards u)) = set (blueSelection u) \<union> set sel \<and>
            distinct (blueSelection (endDrag e cards u))) \<and>
         (\<not> shiftKey e \<and> \<not> metaKey e \<and> \<not> ctrlKey e \<longrightarrow>
            blueSelection (endDrag e cards u) = sel) \<and>
         (ctrlKey e \<and> \<not> shiftKey e \<and> \<not> metaKey e \<longrightarrow>
            blueSelection (endDrag e cards u) = blueSelection u)"
  using assms
  by (auto simp: endDrag_def Let_def set_array_from_Set distinct_array_from_Set)

theorem drag_release_witness:
  "blueSelection (endDrag shift_click cards_row dragging_ui) = [1, 2, 3] \<and>
   blueSelection (endDrag meta_click cards_row dragging_ui) = [1, 2, 3] \<and>
   blueSelection (endDrag plain_click cards_row dragging_ui) = [2, 3] \<and>
   blueSelection (endDrag ctrl_click cards_row dragging_ui) = [1, 2]"
proof -
  let ?ds = "\<lparr> p_x = 110, p_y = 10 \<rparr>"
  have d: "isDragging dragging_ui" "dragStart dragging_ui = Some ?ds"
    "blueSelection dragging_ui = [1, 2]"
    by (simp_all add: gesture_defs)
  have s: "selectedIds (marqueeClient ?ds shift_click) cards_row = [2, 3]"
    "selectedIds (marqueeClient ?ds meta_click) cards_row = [2, 3]"
    "selectedIds (marqueeClient ?ds plain_click) cards_row = [2, 3]"
    "selectedIds (marqueeClient ?ds ctrl_click) cards_row = [2, 3]"
    by (simp_all add: gesture_defs)
  have m: "shiftKey shift_click" "metaKey meta_click" "\<not> shiftKey meta_click"
    "\<not> shiftKey plain_click \<and> \<not> metaKey plain_click \<and> \<not> ctrlKey plain_click"
    "ctrlKey ctrl_click \<and> \<not> shiftKey ctrl_click \<and> \<not> metaKey ctrl_click"
    by (simp_all add: gesture_defs)
  have ne: "[2, 3 :: int] \<noteq> []"
    by simp
  have u: "array_from_Set ([1, 2] @ [2, 3]) = [1, 2, 3]"
    by (simp add: array_from_Set_def push_absent_def)
  show ?thesis
    using drag_release[OF d(1) d(2) s(1) ne] drag_release[OF d(1) d(2) s(2) ne]
      drag_release[OF d(1) d(2) s(3) ne] drag_release[OF d(1) d(2) s(4) ne] d(3) m u
    by simp
qed

section \<open>Toggle-click on a window header\<close>

lemma toggleAll_windowsData: "windowsData (toggleAllTabsInWindow wid u) = windowsData u"
  by (simp add: toggleAllTabsInWindow_def Let_def split: option.splits)

lemma toggleAll_blue:
  assumes "find (\<lambda>w. win_id w = windowId) (windowsData u) = Some win"
  shows "set (blueSelection (toggleAllTabsInWindow windowId u)) =
     (if set (map tab_id (win_tabs win)) \<subseteq> set (blueSelection u)
      then set (blueSelection u) - set (map tab_id (win_tabs win))
      else set (blueSelection u) \<union> set (map tab_id (win_tabs win)))"
  using assms
  by (auto simp: toggleAllTabsInWindow_def Let_def list_all_iff set_foldl_push_absent)

text \<open>Window 1 has tabs 1 and 2 and only tab 1 is in Current: the first toggle-click
  completes the selection, the second removes both tabs, so tab 1 has lost its place.\<close>

theorem toggle_twice_partial_counterexample:
  "find (\<lambda>w. win_id w = 1) (windowsData (one_window_ui [1])) = Some (mk_window 1 [1, 2]) \<and>
   map tab_id (win_tabs (mk_window 1 [1, 2])) = [1, 2] \<and>
   1 \<in> set (blueSelection (one_window_ui [1])) \<and>
   blueSelection (windowTab_click 1 ctrl_click (one_window_ui [1])) = [1, 2] \<and>
   blueSelection (windowTab_click 1 ctrl_click (windowTab_click 1 ctrl_click (one_window_ui [1]))) = [] \<and>
   1 \<notin> set (blueSelection
             (windowTab_click 1 ctrl_click (windowTab_click 1 ctrl_click (one_window_ui [1]))))"
  by (simp add: gesture_defs)

text \<open>
  C8, as the code has it. For every window whose tabs are, before the first click, either
  all in Current or all outside it, and every prior Current selection, two toggle-clicks
  (Ctrl or Cmd) on the window header in succession return every tab of that window to its
  pre-click membership in Current.
\<close>

theorem toggle_twice:
  assumes found: "find (\<lambda>w. win_id w = windowId) (windowsData u) = Some win"
    and modifier: "ctrlKey e \<or> metaKey e"
    and uniform: "set (map tab_id (win_tabs win)) \<subseteq> set (blueSelection u) \<or>
                  set (map tab_id (win_tabs win)) \<inter> set (blueSelection u) = {}"
  shows "\<forall>t \<in> set (map tab_id (win_tabs win)).
           (t \<in> set (blueSelection (windowTab_click windowId e (windowTab_click windowId e u))))
           = (t \<in> set (blueSelection u))"
proof -
  let ?u1 = "toggleAllTabsInWindow windowId u"
  have f1: "find (\<lambda>w. win_id w = windowId) (windowsData ?u1) = Some win"
    using found by (simp add: toggleAll_windowsData)
  have "set (blueSelection (toggleAllTabsInWindow windowId ?u1)) = set (blueSelection u)"
    using uniform unfolding toggleAll_blue[OF f1] toggleAll_blue[OF found] by auto
  then show ?thesis using modifier by (simp add: windowTab_click_def)
qed

theorem toggle_twice_witness:
  "1 \<in> set (blueSelection
     (windowTab_click 1 ctrl_click (windowTab_click 1 ctrl_click (one_window_ui [7, 2, 1])))) \<and>
   2 \<in> set (blueSelection
     (windowTab_click 1 ctrl_click (windowTab_click 1 ctrl_click (one_window_ui [7, 2, 1])))) \<and>
   1 \<notin> set (blueSelection
     (windowTab_click 1 meta_click (windowTab_click 1 meta_click (one_window_ui [7])))) \<and>
   2 \<notin> set (blueSelection
     (windowTab_click 1 meta_click (windowTab_click 1 meta_click (one_window_ui [7]))))"
proof -
  have found: "find (\<lambda>w. win_id w = 1) (windowsData (one_window_ui [7, 2, 1])) = Some (mk_window 1 [1, 2])"
    "find (\<lambda>w. win_id w = 1) (windowsData (one_window_ui [7])) = Some (mk_window 1 [1, 2])"
    by (simp_all add: gesture_defs)
  have m: "ctrlKey ctrl_click \<or> metaKey ctrl_click" "ctrlKey meta_click \<or> metaKey meta_click"
    by (simp_all add: gesture_defs)
  have ids: "map tab_id (win_tabs (mk_window 1 [1, 2])) = [1, 2]"
    by (simp add: mk_window_def)
  have sel: "blueSelection (one_window_ui [7, 2, 1]) = [7, 2, 1]" "blueSelection (one_window_ui [7]) = [7]"
    by (simp_all add: gesture_defs)
  have u1: "set (map tab_id (win_tabs (mk_window 1 [1, 2]))) \<subseteq> set (blueSelection (one_window_ui [7, 2, 1])) \<or>
      set (map tab_id (win_tabs (mk_window 1 [1, 2]))) \<inter> set (blueSelection (one_window_ui [7, 2, 1])) = {}"
    by (simp add: ids sel)
  have u2: "set (map tab_id (win_tabs (mk_window 1 [1, 2]))) \<subseteq> set (blueSelection (one_window_ui [7])) \<or>
      set (map tab_id (win_tabs (mk_window 1 [1, 2]))) \<inter> set (blueSelection (one_window_ui [7])) = {}"
    by (simp add: ids sel)
  show ?thesis
    using toggle_twice[OF found(1) m(1) u1] toggle_twice[OF found(2) m(2) u2]
    by (simp add: ids sel)
qed

section \<open>Refresh leaves the selections alone\<close>

text \<open>
  C9. For every state, a refresh leaves Current, Source, Target and the merge stage
  unchanged. When the fetch fails, and when the fetched windows print to the cached
  snapshot, the cached snapshot and the window list are left untouched as well.
\<close>

theorem refresh_frame:
  "blueSelection (ui (loadWindowsAndTabs api w)) = blueSelection (ui w) \<and>
   redSelection (ui (loadWindowsAndTabs api w)) = redSelection (ui w) \<and>
   yellowSelection (ui (loadWindowsAndTabs api w)) = yellowSelection (ui w) \<and>
   mergeMode (ui (loadWindowsAndTabs api w)) = mergeMode (ui w) \<and>
   (windows_getAll api (host w) = Rejects \<or>
    (\<exists>ws. windows_getAll api (host w) = Resolves ws \<and>
          lastSnapshot (ui w) = Some (snapshot_of (sort_key win_id ws)))
    \<longrightarrow> lastSnapshot (ui (loadWindowsAndTabs api w)) = lastSnapshot (ui w) \<and>
        windowsData (ui (loadWindowsAndTabs api w)) = windowsData (ui w))"
  by (auto simp: loadWindowsAndTabs_def Let_def split: outcome.splits)

text \<open>A failed fetch and an unchanged universe, with all three selections in use.\<close>

theorem refresh_frame_witness:
  "windows_getAll browser_api (host offline_world) = Rejects \<and>
   blueSelection (ui (loadWindowsAndTabs browser_api offline_world)) = [2] \<and>
   redSelection (ui (loadWindowsAndTabs browser_api offline_world)) = [1] \<and>
   yellowSelection (ui (loadWindowsAndTabs browser_api offline_world)) = [4] \<and>
   mergeMode (ui (loadWindowsAndTabs browser_api offline_world)) = ModeYellow \<and>
   lastSnapshot (ui (loadWindowsAndTabs browser_api offline_world)) =
     Some [(1, [1, 2, 3]), (2, [4, 5])] \<and>
   windowsData (ui (loadWindowsAndTabs browser_api offline_world)) =
     [mk_window 1 [1, 2, 3], mk_window 2 [4, 5]] \<and>
   windows_getAll browser_api (host (loaded two_windows)) =
     Resolves [mk_window 1 [1, 2, 3], mk_window 2 [4, 5]] \<and>
   lastSnapshot (ui (loadWindowsAndTabs browser_api (loaded two_windows))) =
     Some [(1, [1, 2, 3]), (2, [4, 5])] \<and>
   windowsData (ui (loadWindowsAndTabs browser_api (loaded two_windows))) =
     [mk_window 1 [1, 2, 3], mk_window 2 [4, 5]]"
proof -
  have off: "windows_getAll browser_api (host offline_world) = Rejects"
    by (simp add: offline_world_def run_defs)
  have before: "blueSelection (ui offline_world) = [2]" "redSelection (ui offline_world) = [1]"
    "yellowSelection (ui offline_world) = [4]" "mergeMode (ui offline_world) = ModeYellow"
    "lastSnapshot (ui offline_world) = Some [(1, [1, 2, 3]), (2, [4, 5])]"
    "windowsData (ui offline_world) = [mk_window 1 [1, 2, 3], mk_window 2 [4, 5]]"
    by (simp_all add: offline_world_def run_defs)
  have same: "windows_getAll browser_api (host (loaded two_windows)) =
      Resolves [mk_window 1 [1, 2, 3], mk_window 2 [4, 5]]"
    "lastSnapshot (ui (loaded two_windows)) =
      Some (snapshot_of (sort_key win_id [mk_window 1 [1, 2, 3], mk_window 2 [4, 5]]))"
    "lastSnapshot (ui (loaded two_windows)) = Some [(1, [1, 2, 3]), (2, [4, 5])]"
    "windowsData (ui (loaded two_windows)) = [mk_window 1 [1, 2, 3], mk_window 2 [4, 5]]"
    by (simp_all add: run_defs)
  show ?thesis
    using refresh_frame[of browser_api offline_world]
      refresh_frame[of browser_api "loaded two_windows"] off before same
    by simp
qed

section \<open>Double click on a window header\<close>

text \<open>
  C10. A double click on the header of a window of the list appends the window's ordered
  tab ids to the end of Current, without deduplication: an id that already was in Current
  occurs in it at least twice afterwards, and the next Merge click copies the list, with its
  duplicates, into Source (stage idle) or Target (stage source-staged).
\<close>

theorem dblclick_appends:
  assumes found: "find (\<lambda>w. win_id w = windowId) (windowsData u) = Some win"
  shows "blueSelection (windowTab_dblclick windowId u) =
           blueSelection u @ map tab_id (win_tabs win) \<and>
         (\<forall>t. t \<in> set (blueSelection u) \<and> t \<in> set (map tab_id (win_tabs win)) \<longrightarrow>
              2 \<le> count_list (blueSelection (windowTab_dblclick windowId u)) t) \<and>
         (mergeMode u = ModeNull \<and> blueSelection (windowTab_dblclick windowId u) \<noteq> [] \<longrightarrow>
            redSelection (ui (mergeBtn_onclick api
               \<lparr> ui = windowTab_dblclick windowId u, host = h, trace = tr \<rparr>)) =
              blueSelection u @ map tab_id (win_tabs win)) \<and>
         (mergeMode u = ModeRed \<and> blueSelection (windowTab_dblclick windowId u) \<noteq> [] \<longrightarrow>
            yellowSelection (ui (mergeBtn_onclick api
               \<lparr> ui = windowTab_dblclick windowId u, host = h, trace = tr \<rparr>)) =
              blueSelection u @ map tab_id (win_tabs win))"
proof -
  have b: "blueSelection (windowTab_dblclick windowId u) =
           blueSelection u @ map tab_id (win_tabs win)"
    using found by (simp add: windowTab_dblclick_def selectAllTabsInWindow_def)
  have m: "mergeMode (windowTab_dblclick windowId u) = mergeMode u"
    using found by (simp add: windowTab_dblclick_def selectAllTabsInWindow_def)
  have c: "2 \<le> count_list (blueSelection u @ map tab_id (win_tabs win)) t"
    if "t \<in> set (blueSelection u)" "t \<in> set (map tab_id (win_tabs win))" for t
  proof -
    have "1 \<le> count_list (blueSelection u) t" "1 \<le> count_list (map tab_id (win_tabs win)) t"
      using that count_list_0_iff[of "blueSelection u" t]
        count_list_0_iff[of "map tab_id (win_tabs win)" t] by (simp_all add: Suc_le_eq)
    then show ?thesis by simp
  qed
  show ?thesis
    using b m c by (auto simp: mergeBtn_onclick_def Let_def)
qed

text \<open>Tab 1 is in Current and window 1 holds tabs 1 and 2.\<close>

theorem dblclick_appends_witness:
  "blueSelection (windowTab_dblclick 1 (one_window_ui [1])) = [1, 1, 2] \<and>
   count_list (blueSelection (windowTab_dblclick 1 (one_window_ui [1]))) 1 = 2 \<and>
   redSelection (ui (mergeBtn_onclick browser_api
      \<lparr> ui = windowTab_dblclick 1 (one_window_ui [1]), host = two_windows, trace = [] \<rparr>)) =
     [1, 1, 2] \<and>
   yellowSelection (ui (mergeBtn_onclick browser_api
      \<lparr> ui = windowTab_dblclick 1 ((one_window_ui [1])\<lparr> redSelection := [5], mergeMode := ModeRed \<rparr>),
        host = two_windows, trace = [] \<rparr>)) = [1, 1, 2]"
proof -
  let ?u = "one_window_ui [1]"
  let ?v = "(one_window_ui [1])\<lparr> redSelection := [5], mergeMode := ModeRed \<rparr>"
  have found: "find (\<lambda>w. win_id w = 1) (windowsData ?u) = Some (mk_window 1 [1, 2])"
    "find (\<lambda>w. win_id w = 1) (windowsData ?v) = Some (mk_window 1 [1, 2])"
    by (simp_all add: gesture_defs)
  have f: "blueSelection ?u = [1]" "blueSelection ?v = [1]" "mergeMode ?u = ModeNull"
    "mergeMode ?v = ModeRed" "map tab_id (win_tabs (mk_window 1 [1, 2])) = [1, 2]"
    by (simp_all add: gesture_defs)
  show ?thesis
    using dblclick_appends[OF found(1), of browser_api two_windows "[]"]
      dblclick_appends[OF found(2), of browser_api two_windows "[]"] f
    by simp
qed

end
